theory Spec2Isabelle
  imports Complex_Main
begin

section \<open>The 1D node-centred Laplacian kernels (AMReX\_MLNodeLap\_1D\_K.H)\<close>

text \<open>
  The kernels take their arrays as \<^verbatim>\<open>Array4<T>\<close> views, index boxes as \<^verbatim>\<open>Box\<close>,
  and small per-axis tuples as \<^verbatim>\<open>GpuArray<T,AMREX_SPACEDIM>\<close>. None of these types is
  declared in the header itself, and no kernel looks inside them, so they are kept as
  plain as possible: an \<open>Array4\<close> is the function from an index \<open>(i, j, k, n)\<close> (cell
  and component) to the value stored there, a \<open>Box\<close> is its pair of corner index
  vectors, and a \<open>GpuArray\<close> is the list of its entries. The floating-point type
  \<^verbatim>\<open>Real\<close> is a type parameter \<open>'r\<close>: the kernels do no arithmetic on it. The
  boundary-condition enumeration \<^verbatim>\<open>LinOpBCType\<close> is a type parameter \<open>'bc\<close>.

  A kernel that writes through a non-const \<^verbatim>\<open>Array4<T> const&\<close> argument is modelled by
  state passing: it takes the array and returns the array as the call leaves it.
\<close>

type_synonym 'a Array4 = "int \<Rightarrow> int \<Rightarrow> int \<Rightarrow> int \<Rightarrow> 'a"

type_synonym IntVect = "int list"

type_synonym Box = "IntVect \<times> IntVect"

type_synonym 'a GpuArray = "'a list"

subsection \<open>Mask set-up and coefficient averaging\<close>

definition mlndlap_set_nodal_mask ::
  "int \<Rightarrow> int \<Rightarrow> int \<Rightarrow> int Array4 \<Rightarrow> int Array4 \<Rightarrow> int Array4" where
  "mlndlap_set_nodal_mask i j k nmsk cmsk = nmsk"

definition mlndlap_set_dirichlet_mask ::
  "Box \<Rightarrow> int Array4 \<Rightarrow> int Array4 \<Rightarrow> Box \<Rightarrow> 'bc GpuArray \<Rightarrow> 'bc GpuArray \<Rightarrow> int Array4" where
  "mlndlap_set_dirichlet_mask bx dmsk omsk dom_bx bclo bchi = dmsk"

definition mlndlap_set_dot_mask ::
  "Box \<Rightarrow> 'r Array4 \<Rightarrow> int Array4 \<Rightarrow> Box \<Rightarrow> 'bc GpuArray \<Rightarrow> 'bc GpuArray \<Rightarrow> 'r Array4" where
  "mlndlap_set_dot_mask bx dmsk omsk dom_bx bclo bchi = dmsk"

definition mlndlap_zero_fine ::
  "int \<Rightarrow> int \<Rightarrow> int \<Rightarrow> 'r Array4 \<Rightarrow> int Array4 \<Rightarrow> int \<Rightarrow> 'r Array4" where
  "mlndlap_zero_fine i j k phi msk fine_flag = phi"

definition mlndlap_avgdown_coeff_x ::
  "int \<Rightarrow> int \<Rightarrow> int \<Rightarrow> 'r Array4 \<Rightarrow> 'r Array4 \<Rightarrow> 'r Array4" where
  "mlndlap_avgdown_coeff_x i j k crse fine = crse"

definition mlndlap_bc_doit ::
  "Box \<Rightarrow> 'a Array4 \<Rightarrow> Box \<Rightarrow> bool GpuArray \<Rightarrow> bool GpuArray \<Rightarrow> 'a Array4" where
  "mlndlap_bc_doit vbx a domain bflo bfhi = a"

subsection \<open>Matrix-free apply, normalisation and relaxation\<close>

definition mlndlap_adotx_ha ::
  "int \<Rightarrow> int \<Rightarrow> int \<Rightarrow> 'r Array4 \<Rightarrow> 'r Array4 \<Rightarrow> 'r Array4 \<Rightarrow> int Array4 \<Rightarrow> 'r GpuArray
    \<Rightarrow> 'r Array4" where
  "mlndlap_adotx_ha i j k y x sx msk dxinv = y"

definition mlndlap_adotx_aa ::
  "int \<Rightarrow> int \<Rightarrow> int \<Rightarrow> 'r Array4 \<Rightarrow> 'r Array4 \<Rightarrow> 'r Array4 \<Rightarrow> int Array4 \<Rightarrow> 'r GpuArray
    \<Rightarrow> 'r Array4" where
  "mlndlap_adotx_aa i j k y x sig msk dxinv = y"

definition mlndlap_normalize_ha ::
  "Box \<Rightarrow> 'r Array4 \<Rightarrow> 'r Array4 \<Rightarrow> int Array4 \<Rightarrow> 'r GpuArray \<Rightarrow> 'r Array4" where
  "mlndlap_normalize_ha bx x sx msk dxinv = x"

definition mlndlap_normalize_aa ::
  "Box \<Rightarrow> 'r Array4 \<Rightarrow> 'r Array4 \<Rightarrow> int Array4 \<Rightarrow> 'r GpuArray \<Rightarrow> 'r Array4" where
  "mlndlap_normalize_aa bx x sig msk dxinv = x"

definition mlndlap_jacobi_ha ::
  "Box \<Rightarrow> 'r Array4 \<Rightarrow> 'r Array4 \<Rightarrow> 'r Array4 \<Rightarrow> 'r Array4 \<Rightarrow> int Array4 \<Rightarrow> 'r GpuArray
    \<Rightarrow> 'r Array4" where
  "mlndlap_jacobi_ha bx sol Ax rhs sx msk dxinv = sol"

definition mlndlap_jacobi_aa ::
  "Box \<Rightarrow> 'r Array4 \<Rightarrow> 'r Array4 \<Rightarrow> 'r Array4 \<Rightarrow> 'r Array4 \<Rightarrow> int Array4 \<Rightarrow> 'r GpuArray
    \<Rightarrow> 'r Array4" where
  "mlndlap_jacobi_aa bx sol Ax rhs sig msk dxinv = sol"

definition mlndlap_gauss_seidel_ha ::
  "Box \<Rightarrow> 'r Array4 \<Rightarrow> 'r Array4 \<Rightarrow> 'r Array4 \<Rightarrow> int Array4 \<Rightarrow> 'r GpuArray \<Rightarrow> 'r Array4" where
  "mlndlap_gauss_seidel_ha bx sol rhs sx msk dxinv = sol"

definition mlndlap_gauss_seidel_aa ::
  "Box \<Rightarrow> 'r Array4 \<Rightarrow> 'r Array4 \<Rightarrow> 'r Array4 \<Rightarrow> int Array4 \<Rightarrow> 'r GpuArray \<Rightarrow> 'r Array4" where
  "mlndlap_gauss_seidel_aa bx sol rhs sig msk dxinv = sol"

subsection \<open>Restriction and interpolation\<close>

definition mlndlap_restriction ::
  "int \<Rightarrow> int \<Rightarrow> int \<Rightarrow> 'r Array4 \<Rightarrow> 'r Array4 \<Rightarrow> int Array4 \<Rightarrow> 'r Array4" where
  "mlndlap_restriction i j k crse fine msk = crse"

definition mlndlap_interpadd_aa ::
  "int \<Rightarrow> int \<Rightarrow> int \<Rightarrow> 'r Array4 \<Rightarrow> 'r Array4 \<Rightarrow> 'r Array4 \<Rightarrow> int Array4 \<Rightarrow> 'r Array4" where
  "mlndlap_interpadd_aa i j k fine crse sig msk = fine"

definition mlndlap_interpadd_ha ::
  "int \<Rightarrow> int \<Rightarrow> int \<Rightarrow> 'r Array4 \<Rightarrow> 'r Array4 \<Rightarrow> 'r Array4 \<Rightarrow> int Array4 \<Rightarrow> 'r Array4" where
  "mlndlap_interpadd_ha i j k fine crse sigx msk = fine"

subsection \<open>Divergence, right-hand side and velocity update\<close>

definition mlndlap_divu ::
  "int \<Rightarrow> int \<Rightarrow> int \<Rightarrow> 'r Array4 \<Rightarrow> 'r Array4 \<Rightarrow> int Array4 \<Rightarrow> 'r GpuArray \<Rightarrow> 'r Array4" where
  "mlndlap_divu i j k rhs vel msk dxinv = rhs"

definition mlndlap_rhcc ::
  "int \<Rightarrow> int \<Rightarrow> int \<Rightarrow> 'r Array4 \<Rightarrow> int Array4 \<Rightarrow> ('r::zero)" where
  "mlndlap_rhcc i j k rhcc msk = 0"

definition mlndlap_mknewu ::
  "int \<Rightarrow> int \<Rightarrow> int \<Rightarrow> 'r Array4 \<Rightarrow> 'r Array4 \<Rightarrow> 'r Array4 \<Rightarrow> 'r GpuArray \<Rightarrow> 'r Array4" where
  "mlndlap_mknewu i j k u p sig dxinv = u"

definition mlndlap_divu_compute_fine_contrib ::
  "int \<Rightarrow> int \<Rightarrow> int \<Rightarrow> Box \<Rightarrow> 'r Array4 \<Rightarrow> 'r Array4 \<Rightarrow> 'r GpuArray \<Rightarrow> 'r Array4" where
  "mlndlap_divu_compute_fine_contrib i j k fvbx frh vel dxinv = frh"

definition mlndlap_divu_add_fine_contrib ::
  "int \<Rightarrow> int \<Rightarrow> int \<Rightarrow> Box \<Rightarrow> 'r Array4 \<Rightarrow> 'r Array4 \<Rightarrow> int Array4 \<Rightarrow> 'r Array4" where
  "mlndlap_divu_add_fine_contrib i j k fvbx rhs frh msk = rhs"

definition mlndlap_rhcc_fine_contrib ::
  "int \<Rightarrow> int \<Rightarrow> int \<Rightarrow> Box \<Rightarrow> 'r Array4 \<Rightarrow> 'r Array4 \<Rightarrow> int Array4 \<Rightarrow> 'r Array4" where
  "mlndlap_rhcc_fine_contrib i j k fvbx rhs cc msk = rhs"

definition mlndlap_divu_cf_contrib ::
  "int \<Rightarrow> int \<Rightarrow> int \<Rightarrow> 'r Array4 \<Rightarrow> 'r Array4 \<Rightarrow> 'r Array4 \<Rightarrow> 'r Array4 \<Rightarrow> int Array4
    \<Rightarrow> int Array4 \<Rightarrow> int Array4 \<Rightarrow> 'r GpuArray \<Rightarrow> Box \<Rightarrow> 'bc GpuArray \<Rightarrow> 'bc GpuArray \<Rightarrow> bool
    \<Rightarrow> 'r Array4" where
  "mlndlap_divu_cf_contrib i j k rhs vel fc rhcc dmsk ndmsk ccmsk dxinv nddom lobc hibc
     neumann_doubling = rhs"

subsection \<open>Coarse-fine residual correction\<close>

definition mlndlap_crse_resid ::
  "int \<Rightarrow> int \<Rightarrow> int \<Rightarrow> 'r Array4 \<Rightarrow> 'r Array4 \<Rightarrow> int Array4 \<Rightarrow> Box \<Rightarrow> 'bc GpuArray
    \<Rightarrow> 'bc GpuArray \<Rightarrow> bool \<Rightarrow> 'r Array4" where
  "mlndlap_crse_resid i j k resid rhs msk nddom bclo bchi neumann_doubling = resid"

definition mlndlap_res_fine_Ax ::
  "int \<Rightarrow> int \<Rightarrow> int \<Rightarrow> Box \<Rightarrow> 'r Array4 \<Rightarrow> 'r Array4 \<Rightarrow> 'r Array4 \<Rightarrow> 'r GpuArray \<Rightarrow> 'r Array4" where
  "mlndlap_res_fine_Ax i j k fvbx Ax x sig dxinv = Ax"

definition mlndlap_res_fine_contrib ::
  "int \<Rightarrow> int \<Rightarrow> int \<Rightarrow> 'r Array4 \<Rightarrow> 'r Array4 \<Rightarrow> int Array4 \<Rightarrow> 'r Array4" where
  "mlndlap_res_fine_contrib i j k f Ax msk = f"

definition mlndlap_res_cf_contrib ::
  "int \<Rightarrow> int \<Rightarrow> int \<Rightarrow> 'r Array4 \<Rightarrow> 'r Array4 \<Rightarrow> 'r Array4 \<Rightarrow> 'r Array4 \<Rightarrow> int Array4
    \<Rightarrow> int Array4 \<Rightarrow> int Array4 \<Rightarrow> 'r Array4 \<Rightarrow> 'r GpuArray \<Rightarrow> Box \<Rightarrow> 'bc GpuArray
    \<Rightarrow> 'bc GpuArray \<Rightarrow> bool \<Rightarrow> 'r Array4" where
  "mlndlap_res_cf_contrib i j k res phi rhs sig dmsk ndmsk ccmsk fc dxinv nddom lobc hibc
     neumann_doubling = res"

subsection \<open>Precomputed-stencil variants\<close>

definition mlndlap_set_stencil ::
  "Box \<Rightarrow> 'r Array4 \<Rightarrow> 'r Array4 \<Rightarrow> 'r GpuArray \<Rightarrow> 'r Array4" where
  "mlndlap_set_stencil bx sten sig dxinv = sten"

definition mlndlap_set_stencil_s0 ::
  "int \<Rightarrow> int \<Rightarrow> int \<Rightarrow> 'r Array4 \<Rightarrow> 'r Array4" where
  "mlndlap_set_stencil_s0 i j k sten = sten"

definition mlndlap_stencil_rap ::
  "int \<Rightarrow> int \<Rightarrow> int \<Rightarrow> 'r Array4 \<Rightarrow> 'r Array4 \<Rightarrow> 'r Array4" where
  "mlndlap_stencil_rap i j k csten fsten = csten"

definition mlndlap_adotx_sten ::
  "int \<Rightarrow> int \<Rightarrow> int \<Rightarrow> 'r Array4 \<Rightarrow> 'r Array4 \<Rightarrow> 'r Array4 \<Rightarrow> int Array4 \<Rightarrow> 'r Array4" where
  "mlndlap_adotx_sten i j k y x sten msk = y"

definition mlndlap_gauss_seidel_sten ::
  "Box \<Rightarrow> 'r Array4 \<Rightarrow> 'r Array4 \<Rightarrow> 'r Array4 \<Rightarrow> int Array4 \<Rightarrow> 'r Array4" where
  "mlndlap_gauss_seidel_sten bx sol rhs sten msk = sol"

definition mlndlap_interpadd_rap ::
  "int \<Rightarrow> int \<Rightarrow> int \<Rightarrow> 'r Array4 \<Rightarrow> 'r Array4 \<Rightarrow> 'r Array4 \<Rightarrow> int Array4 \<Rightarrow> 'r Array4" where
  "mlndlap_interpadd_rap i j k fine crse sten msk = fine"

definition mlndlap_restriction_rap ::
  "int \<Rightarrow> int \<Rightarrow> int \<Rightarrow> 'r Array4 \<Rightarrow> 'r Array4 \<Rightarrow> 'r Array4 \<Rightarrow> int Array4 \<Rightarrow> 'r Array4" where
  "mlndlap_restriction_rap i j k crse fine sten msk = crse"

section \<open>The abstract linear operator (AMReX\_LinOp.H)\<close>

text \<open>
  The data members of \<^verbatim>\<open>class LinOp\<close>, under their own names. The element types are
  classes of other headers (\<^verbatim>\<open>Array<Real,BL_SPACEDIM>\<close>, \<^verbatim>\<open>BoxArray\<close>,
  \<^verbatim>\<open>BndryRegister\<close>, \<^verbatim>\<open>MultiMask\<close>, \<^verbatim>\<open>Geometry\<close>, \<^verbatim>\<open>BndryData\<close>) and stay
  type parameters \<open>'h\<close>, \<open>'b\<close>, \<open>'r\<close>, \<open>'m\<close>, \<open>'g\<close>, \<open>'bd\<close>. Every \<^verbatim>\<open>Vector\<close> "on level"
  is a list indexed by the level; \<open>maskvals\<close> and \<open>lmaskvals\<close> hold, per level, the
  vector "on orientation" of masks.
\<close>

record ('h, 'b, 'r, 'm, 'g, 'bd) LinOp =
  h :: "'h list"
  gbox :: "'b list"
  undrrelxr :: "'r list"
  maskvals :: "'m list list"
  lmaskvals :: "'m list list"
  bgb :: "'bd"
  geomarray :: "'g list"
  harmavg :: int
  verbose :: int
  maxorder :: int

text \<open>
  Modelled from the spec: the macro \<^verbatim>\<open>BL_ASSERT\<close> and the class \<^verbatim>\<open>Vector\<close> are not
  defined in the header. The spec has a failed assertion as fatal ("assertion failure,
  fatal", "not recoverable"), so a call whose \<^verbatim>\<open>BL_ASSERT\<close> condition is false ends in
  \<open>AssertionFailed\<close> and returns nothing. \<^verbatim>\<open>operator[]\<close> of a \<^verbatim>\<open>Vector\<close> has an element to
  return for the indices \<open>0 .. size() - 1\<close> only; at any other index the call ends in
  \<open>IndexOutOfRange\<close>.
\<close>

datatype failure = AssertionFailed | IndexOutOfRange

definition Vector_at :: "'a list \<Rightarrow> int \<Rightarrow> failure + 'a" where
  "Vector_at v i = (if 0 \<le> i \<and> i < int (length v) then Inr (v ! nat i) else Inl IndexOutOfRange)"

text \<open>\<^verbatim>\<open>virtual int numLevels () const { return h.size(); }\<close>\<close>

definition numLevels :: "('h, 'b, 'r, 'm, 'g, 'bd) LinOp \<Rightarrow> int" where
  "numLevels s = int (length (h s))"

text \<open>
  \<^verbatim>\<open>virtual const BoxArray& boxArray (int level = 0) const
  { BL_ASSERT(level < numLevels()); return gbox[level]; }\<close>

  The member function is \<^verbatim>\<open>const\<close>: the operator it returns beside its result is the
  operator it was called on.
\<close>

definition boxArray ::
  "('h, 'b, 'r, 'm, 'g, 'bd) LinOp \<Rightarrow> int \<Rightarrow> (failure + 'b) \<times> ('h, 'b, 'r, 'm, 'g, 'bd) LinOp" where
  "boxArray s level =
     (if level < numLevels s then Vector_at (gbox s) level else Inl AssertionFailed, s)"

text \<open>
  The lock-step invariant of the per-level containers: each holds one entry per level.
\<close>

definition lockstep :: "('h, 'b, 'r, 'm, 'g, 'bd) LinOp \<Rightarrow> bool" where
  "lockstep s =
     (int (length (h s)) = numLevels s \<and> int (length (gbox s)) = numLevels s \<and>
      int (length (undrrelxr s)) = numLevels s \<and> int (length (maskvals s)) = numLevels s \<and>
      int (length (geomarray s)) = numLevels s)"

text \<open>
  The per-level state of level \<open>l\<close>: its spacing, grid list, boundary register, masks and
  geometry, when every container has that level.
\<close>

definition level_data ::
  "('h, 'b, 'r, 'm, 'g, 'bd) LinOp \<Rightarrow> int \<Rightarrow> ('h \<times> 'b \<times> 'r \<times> 'm list \<times> 'g) option" where
  "level_data s l =
     (if 0 \<le> l \<and> l < numLevels s \<and> nat l < length (gbox s) \<and> nat l < length (undrrelxr s) \<and>
         nat l < length (maskvals s) \<and> nat l < length (geomarray s)
      then Some (h s ! nat l, gbox s ! nat l, undrrelxr s ! nat l, maskvals s ! nat l,
                 geomarray s ! nat l)
      else None)"

subsection \<open>Level management\<close>

text \<open>
  The constructors, \<^verbatim>\<open>initConstruct\<close>, \<^verbatim>\<open>prepareForLevel\<close> and \<^verbatim>\<open>clearToLevel\<close> are
  declared in the header and defined in a source file that is not part of the sources
  at hand. What they need from other classes is gathered in one record of operations:
  the level-0 grid list and geometry held by the boundary data, the coarsening by two
  of a spacing, a grid list and a geometry, the boundary register and the masks of a
  grid list, and the static defaults \<^verbatim>\<open>def_harmavg\<close>, \<^verbatim>\<open>def_verbose\<close>, \<^verbatim>\<open>def_maxorder\<close>.
\<close>

record ('h, 'b, 'r, 'm, 'g, 'bd) level_ops =
  bndry_boxes :: "'bd \<Rightarrow> 'b"
  bndry_geom :: "'bd \<Rightarrow> 'g"
  coarsen_spacing :: "'h \<Rightarrow> 'h"
  coarsen_boxes :: "'b \<Rightarrow> 'b"
  coarsen_geom :: "'g \<Rightarrow> 'g"
  make_undrrelxr :: "'b \<Rightarrow> 'r"
  make_maskvals :: "'b \<Rightarrow> 'g \<Rightarrow> 'm list"
  def_harmavg :: int
  def_verbose :: int
  def_maxorder :: int

text \<open>
  Modelled from the spec: the constructors of \<^verbatim>\<open>LinOp\<close> (with \<^verbatim>\<open>initConstruct\<close>) are
  missing. The spec: "the Linear Operator is constructed from a BoundaryData object and
  a spacing specification; level 0 data is taken as given, all higher levels are lazily
  constructed", and \<open>lmaskvals\<close> "is a level-0-only specialization built lazily".
\<close>

definition LinOp_construct ::
  "('h, 'b, 'r, 'm, 'g, 'bd) level_ops \<Rightarrow> 'bd \<Rightarrow> 'h \<Rightarrow> ('h, 'b, 'r, 'm, 'g, 'bd) LinOp" where
  "LinOp_construct ops mgb h0 =
     \<lparr> h = [h0],
       gbox = [bndry_boxes ops mgb],
       undrrelxr = [make_undrrelxr ops (bndry_boxes ops mgb)],
       maskvals = [make_maskvals ops (bndry_boxes ops mgb) (bndry_geom ops mgb)],
       lmaskvals = [],
       bgb = mgb,
       geomarray = [bndry_geom ops mgb],
       harmavg = def_harmavg ops,
       verbose = def_verbose ops,
       maxorder = def_maxorder ops \<rparr>"

text \<open>
  Modelled from the spec: the body of \<^verbatim>\<open>LinOp::clearToLevel\<close> is missing, and what is
  written about it does not agree on the requested level itself. The spec's list of
  operations has "\<^verbatim>\<open>clearToLevel(level)\<close>: discards all per-level state strictly above
  \<^verbatim>\<open>level\<close>"; the spec's state machine has "only the requested level and
  strictly-coarser-index levels above it are cleared", and the header's comment on the
  declaration has "Remove internal data necessary for a level and all higher". Neither
  reading is chosen here: \<open>clearToLevel\<close> takes the reading as an argument, and keeps
  the first \<open>kept_levels\<close> entries of every per-level container, which are the levels
  \<open>0 .. level\<close> under the first reading and \<open>0 .. level - 1\<close> under the second.
\<close>

datatype clear_reading = Strictly_above | Level_and_above

primrec kept_levels :: "clear_reading \<Rightarrow> int \<Rightarrow> nat" where
  "kept_levels Strictly_above level = nat (level + 1)"
| "kept_levels Level_and_above level = nat level"

definition clearToLevel ::
  "clear_reading \<Rightarrow> int \<Rightarrow> ('h, 'b, 'r, 'm, 'g, 'bd) LinOp \<Rightarrow> ('h, 'b, 'r, 'm, 'g, 'bd) LinOp" where
  "clearToLevel reading level s =
     s \<lparr> h := take (kept_levels reading level) (h s),
         gbox := take (kept_levels reading level) (gbox s),
         undrrelxr := take (kept_levels reading level) (undrrelxr s),
         maskvals := take (kept_levels reading level) (maskvals s),
         geomarray := take (kept_levels reading level) (geomarray s) \<rparr>"

text \<open>
  Modelled from the spec: the body of \<^verbatim>\<open>LinOp::prepareForLevel\<close> is missing. The spec:
  "\<^verbatim>\<open>prepareForLevel(level)\<close>: idempotent; builds level \<^verbatim>\<open>level\<close> (and any missing
  intermediate levels) by coarsening level \<^verbatim>\<open>level-1\<close>'s grid set by 2, deriving spacing,
  geometry, and averaged coefficients."

  \<open>coarsened_from\<close> is the per-level state that belongs on top of a level: the
  spacing, grid list and geometry coarsened, the boundary register and the masks made
  for the coarsened grid list. \<open>add_level\<close> builds the next level, number
  \<open>numLevels s\<close>, from the level below it with just these entries; where there is no
  level below (no level 0 to coarsen) it builds nothing.
  \<open>build_levels n\<close> builds the next \<open>n\<close> levels, and \<open>prepareForLevel level\<close> builds
  the levels that are missing up to \<open>level\<close>: none when \<open>level < numLevels s\<close>. The
  base class holds no coefficients; a derived operator averages its own.
\<close>

definition coarsened_from ::
  "('h, 'b, 'r, 'm, 'g, 'bd) level_ops \<Rightarrow> 'h \<times> 'b \<times> 'r \<times> 'm list \<times> 'g
    \<Rightarrow> 'h \<times> 'b \<times> 'r \<times> 'm list \<times> 'g" where
  "coarsened_from ops below =
     (case below of (hf, bf, rf, mf, gf) \<Rightarrow>
        (coarsen_spacing ops hf, coarsen_boxes ops bf, make_undrrelxr ops (coarsen_boxes ops bf),
         make_maskvals ops (coarsen_boxes ops bf) (coarsen_geom ops gf), coarsen_geom ops gf))"

definition add_level ::
  "('h, 'b, 'r, 'm, 'g, 'bd) level_ops \<Rightarrow> ('h, 'b, 'r, 'm, 'g, 'bd) LinOp
    \<Rightarrow> ('h, 'b, 'r, 'm, 'g, 'bd) LinOp" where
  "add_level ops s =
     (case level_data s (numLevels s - 1) of
        None \<Rightarrow> s
      | Some below \<Rightarrow>
          (case coarsened_from ops below of
             (hc, bc, rc, mc, gc) \<Rightarrow>
               s \<lparr> h := h s @ [hc],
                   gbox := gbox s @ [bc],
                   undrrelxr := undrrelxr s @ [rc],
                   maskvals := maskvals s @ [mc],
                   geomarray := geomarray s @ [gc] \<rparr>))"

primrec build_levels ::
  "('h, 'b, 'r, 'm, 'g, 'bd) level_ops \<Rightarrow> nat \<Rightarrow> ('h, 'b, 'r, 'm, 'g, 'bd) LinOp
    \<Rightarrow> ('h, 'b, 'r, 'm, 'g, 'bd) LinOp" where
  "build_levels ops 0 s = s"
| "build_levels ops (Suc n) s = build_levels ops n (add_level ops s)"

definition prepareForLevel ::
  "('h, 'b, 'r, 'm, 'g, 'bd) level_ops \<Rightarrow> int \<Rightarrow> ('h, 'b, 'r, 'm, 'g, 'bd) LinOp
    \<Rightarrow> ('h, 'b, 'r, 'm, 'g, 'bd) LinOp" where
  "prepareForLevel ops level s = build_levels ops (nat (level + 1 - numLevels s)) s"

text \<open>
  The operators of a lifetime: the constructed one, and whatever a call of
  \<open>prepareForLevel\<close> or \<open>clearToLevel\<close>, at any level and under either reading of
  \<open>clearToLevel\<close>, makes of one.
\<close>

inductive reachable ::
  "('h, 'b, 'r, 'm, 'g, 'bd) level_ops \<Rightarrow> ('h, 'b, 'r, 'm, 'g, 'bd) LinOp \<Rightarrow> bool"
  for ops :: "('h, 'b, 'r, 'm, 'g, 'bd) level_ops" where
  constructed: "reachable ops (LinOp_construct ops mgb h0)"
| prepared: "reachable ops s \<Longrightarrow> reachable ops (prepareForLevel ops level s)"
| cleared: "reachable ops s \<Longrightarrow> reachable ops (clearToLevel reading level s)"

subsection \<open>A small operator to run the definitions on\<close>

text \<open>
  One grid \<open>[0, 7]\<close> in one dimension with spacing 1: a grid list is the list of its
  boxes, coarsening halves the corners (rounding down) and doubles the spacing, the
  geometry is the domain box, the register is kept as the grid list it was made for,
  and the two masks of a level (low and high side) are its numbers of grids and of
  domain corners.
\<close>

definition coarsen_Box :: "Box \<Rightarrow> Box" where
  "coarsen_Box bx = (map (\<lambda>c. c div 2) (fst bx), map (\<lambda>c. c div 2) (snd bx))"

definition ex_ops :: "(nat, Box list, Box list, int, Box, Box list \<times> Box) level_ops" where
  "ex_ops =
     \<lparr> bndry_boxes = fst,
       bndry_geom = snd,
       coarsen_spacing = (\<lambda>d. 2 * d),
       coarsen_boxes = map coarsen_Box,
       coarsen_geom = coarsen_Box,
       make_undrrelxr = (\<lambda>ba. ba),
       make_maskvals = (\<lambda>ba g. [int (length ba), int (length (fst g))]),
       def_harmavg = 0,
       def_verbose = 0,
       def_maxorder = 2 \<rparr>"

definition ex_LinOp :: "(nat, Box list, Box list, int, Box, Box list \<times> Box) LinOp" where
  "ex_LinOp = LinOp_construct ex_ops ([([0], [7])], ([0], [7])) 1"

section \<open>Properties of the kernels\<close>

lemmas mlndlap_kernel_defs =
  mlndlap_set_nodal_mask_def mlndlap_set_dirichlet_mask_def mlndlap_set_dot_mask_def
  mlndlap_zero_fine_def mlndlap_avgdown_coeff_x_def mlndlap_bc_doit_def
  mlndlap_adotx_ha_def mlndlap_adotx_aa_def mlndlap_normalize_ha_def
  mlndlap_normalize_aa_def mlndlap_jacobi_ha_def mlndlap_jacobi_aa_def
  mlndlap_gauss_seidel_ha_def mlndlap_gauss_seidel_aa_def mlndlap_restriction_def
  mlndlap_interpadd_aa_def mlndlap_interpadd_ha_def mlndlap_divu_def mlndlap_rhcc_def
  mlndlap_mknewu_def mlndlap_divu_compute_fine_contrib_def
  mlndlap_divu_add_fine_contrib_def mlndlap_rhcc_fine_contrib_def
  mlndlap_divu_cf_contrib_def mlndlap_crse_resid_def mlndlap_res_fine_Ax_def
  mlndlap_res_fine_contrib_def mlndlap_res_cf_contrib_def mlndlap_set_stencil_def
  mlndlap_set_stencil_s0_def mlndlap_stencil_rap_def mlndlap_adotx_sten_def
  mlndlap_gauss_seidel_sten_def mlndlap_interpadd_rap_def mlndlap_restriction_rap_def

text \<open>
  Claim C8. Every kernel of the 1D header has an empty body: whatever its inputs, the
  array it could write to is, after the call, the array it was before the call; and
  \<open>mlndlap_rhcc\<close> returns 0 for every input.
\<close>

theorem mlndlap_1D_kernels_leave_outputs_unchanged:
  "mlndlap_set_nodal_mask i j k nmsk cmsk = nmsk \<and>
   mlndlap_set_dirichlet_mask bx dmsk omsk dom_bx bclo bchi = dmsk \<and>
   mlndlap_set_dot_mask bx dotmsk omsk dom_bx bclo bchi = dotmsk \<and>
   mlndlap_zero_fine i j k phi msk fine_flag = phi \<and>
   mlndlap_avgdown_coeff_x i j k crse fine = crse \<and>
   mlndlap_bc_doit vbx a dom_bx bflo bfhi = a \<and>
   mlndlap_adotx_ha i j k y x sx msk dxinv = y \<and>
   mlndlap_adotx_aa i j k y x sig msk dxinv = y \<and>
   mlndlap_normalize_ha bx x sx msk dxinv = x \<and>
   mlndlap_normalize_aa bx x sig msk dxinv = x \<and>
   mlndlap_jacobi_ha bx sol Ax rhs sx msk dxinv = sol \<and>
   mlndlap_jacobi_aa bx sol Ax rhs sig msk dxinv = sol \<and>
   mlndlap_gauss_seidel_ha bx sol rhs sx msk dxinv = sol \<and>
   mlndlap_gauss_seidel_aa bx sol rhs sig msk dxinv = sol \<and>
   mlndlap_restriction i j k crse fine msk = crse \<and>
   mlndlap_interpadd_aa i j k fine crse sig msk = fine \<and>
   mlndlap_interpadd_ha i j k fine crse sigx msk = fine \<and>
   mlndlap_divu i j k rhs vel msk dxinv = rhs \<and>
   mlndlap_rhcc i j k rhcc msk = 0 \<and>
   mlndlap_mknewu i j k u p sig dxinv = u \<and>
   mlndlap_divu_compute_fine_contrib i j k fvbx frh vel dxinv = frh \<and>
   mlndlap_divu_add_fine_contrib i j k fvbx rhs frh msk = rhs \<and>
   mlndlap_rhcc_fine_contrib i j k fvbx rhs cc msk = rhs \<and>
   mlndlap_divu_cf_contrib i j k rhs vel fc rhcc dmsk ndmsk ccmsk dxinv nddom lobc hibc
     neumann_doubling = rhs \<and>
   mlndlap_crse_resid i j k resid rhs msk nddom bclo bchi neumann_doubling = resid \<and>
   mlndlap_res_fine_Ax i j k fvbx Ax x sig dxinv = Ax \<and>
   mlndlap_res_fine_contrib i j k f Ax msk = f \<and>
   mlndlap_res_cf_contrib i j k res phi rhs sig dmsk ndmsk ccmsk fc dxinv nddom lobc hibc
     neumann_doubling = res \<and>
   mlndlap_set_stencil bx sten sig dxinv = sten \<and>
   mlndlap_set_stencil_s0 i j k sten = sten \<and>
   mlndlap_stencil_rap i j k csten fsten = csten \<and>
   mlndlap_adotx_sten i j k y x sten msk = y \<and>
   mlndlap_gauss_seidel_sten bx sol rhs sten msk = sol \<and>
   mlndlap_interpadd_rap i j k fine crse sten msk = fine \<and>
   mlndlap_restriction_rap i j k crse fine sten msk = crse"
  by (simp add: mlndlap_kernel_defs)

text \<open>
  Claim C2. Called at the same node with the same output array \<open>y\<close>, input field \<open>x\<close>
  and mask, the harmonic-average, the arithmetic-average and the precomputed-stencil
  apply (its stencil built by \<open>mlndlap_set_stencil\<close> from the coefficients \<open>sig\<close> and
  the spacing \<open>dxinv\<close> of the arithmetic variant) leave the same output, as arrays and
  so at every node and component. In this 1D header the agreement does not depend on
  how the coefficients \<open>sx\<close> and \<open>sig\<close> are related.
\<close>

theorem adotx_strategies_agree:
  "mlndlap_adotx_ha i j k y x sx msk dxinv = mlndlap_adotx_aa i j k y x sig msk dxinv \<and>
   mlndlap_adotx_aa i j k y x sig msk dxinv =
     mlndlap_adotx_sten i j k y x (mlndlap_set_stencil bx sten sig dxinv) msk \<and>
   (\<forall>p q r n. mlndlap_adotx_ha i j k y x sx msk dxinv p q r n =
                mlndlap_adotx_sten i j k y x (mlndlap_set_stencil bx sten sig dxinv) msk p q r n)"
  by (simp add: mlndlap_adotx_ha_def mlndlap_adotx_aa_def mlndlap_adotx_sten_def)

text \<open>
  Claim C3. Let \<open>masked_out\<close> say which mask values mark a node as masked out (covered
  by a finer level, or outside the domain); the header fixes no encoding, so the
  statement holds for every such classification. If node \<open>(p, q, r)\<close> is masked out,
  then restriction leaves the coarse value at that node, and both interpolation-add
  kernels leave the fine value at that node, as they were, in every component \<open>n\<close>.
  Masked-out nodes carry zero weight: changing the source field (\<open>fine\<close> for
  restriction, \<open>crse\<close> for interpolation) at masked-out nodes only does not change the
  result of the call.
\<close>

theorem masked_nodes_receive_no_correction:
  fixes masked_out :: "int \<Rightarrow> bool"
  assumes "masked_out (msk p q r 0)"
    and "\<forall>a b c m. \<not> masked_out (msk a b c 0) \<longrightarrow> fine' a b c m = fine a b c m"
    and "\<forall>a b c m. \<not> masked_out (msk a b c 0) \<longrightarrow> crse' a b c m = crse a b c m"
  shows "mlndlap_restriction i j k crse fine msk p q r n = crse p q r n \<and>
         mlndlap_interpadd_aa i j k fine crse sig msk p q r n = fine p q r n \<and>
         mlndlap_interpadd_ha i j k fine crse sigx msk p q r n = fine p q r n \<and>
         mlndlap_restriction i j k crse fine' msk = mlndlap_restriction i j k crse fine msk \<and>
         mlndlap_interpadd_aa i j k fine crse' sig msk =
           mlndlap_interpadd_aa i j k fine crse sig msk \<and>
         mlndlap_interpadd_ha i j k fine crse' sigx msk =
           mlndlap_interpadd_ha i j k fine crse sigx msk"
  by (simp add: mlndlap_restriction_def mlndlap_interpadd_aa_def mlndlap_interpadd_ha_def)

text \<open>
  The theorem at work: the mask marks node 1 (value 1) and no other node, the coarse
  field is 5 and the fine field 3 everywhere, and the second source field differs from
  the first at the masked-out node only (9 instead of 3, or 7 instead of 5).
\<close>

theorem masked_nodes_receive_no_correction_witness:
  "mlndlap_restriction 0 0 0 (\<lambda>a b c m. 5) (\<lambda>a b c m. 3)
       (\<lambda>a b c m. if a = 1 then 1 else 0) 1 0 0 0 = (5::real) \<and>
   mlndlap_interpadd_aa 0 0 0 (\<lambda>a b c m. 3) (\<lambda>a b c m. 5) (\<lambda>a b c m. 1)
       (\<lambda>a b c m. if a = 1 then 1 else 0) 1 0 0 0 = (3::real) \<and>
   mlndlap_interpadd_ha 0 0 0 (\<lambda>a b c m. 3) (\<lambda>a b c m. 5) (\<lambda>a b c m. 1)
       (\<lambda>a b c m. if a = 1 then 1 else 0) 1 0 0 0 = (3::real) \<and>
   mlndlap_restriction 0 0 0 (\<lambda>a b c m. 5) (\<lambda>a b c m. if a = 1 then 9 else 3)
       (\<lambda>a b c m. if a = 1 then 1 else 0)
     = mlndlap_restriction 0 0 0 (\<lambda>a b c m. 5::real) (\<lambda>a b c m. 3)
       (\<lambda>a b c m. if a = 1 then 1 else 0) \<and>
   mlndlap_interpadd_aa 0 0 0 (\<lambda>a b c m. 3) (\<lambda>a b c m. if a = 1 then 7 else 5) (\<lambda>a b c m. 1)
       (\<lambda>a b c m. if a = 1 then 1 else 0)
     = mlndlap_interpadd_aa 0 0 0 (\<lambda>a b c m. 3::real) (\<lambda>a b c m. 5) (\<lambda>a b c m. 1)
       (\<lambda>a b c m. if a = 1 then 1 else 0)"
  using masked_nodes_receive_no_correction
    [where masked_out = "\<lambda>v. v \<noteq> 0" and msk = "\<lambda>a b c m. if a = 1 then 1 else 0"
       and p = 1 and q = 0 and r = 0 and n = 0 and i = 0 and j = 0 and k = 0
       and fine = "\<lambda>a b c m. 3::real" and fine' = "\<lambda>a b c m. if a = 1 then 9 else 3"
       and crse = "\<lambda>a b c m. 5::real" and crse' = "\<lambda>a b c m. if a = 1 then 7 else 5"
       and sig = "\<lambda>a b c m. 1" and sigx = "\<lambda>a b c m. 1"]
  by simp

section \<open>Properties of the level management\<close>

subsection \<open>The lock-step invariant is kept\<close>

lemma lockstep_construct: "lockstep (LinOp_construct ops mgb h0)"
  by (simp add: lockstep_def numLevels_def LinOp_construct_def)

lemma lockstep_clearToLevel: "lockstep s \<Longrightarrow> lockstep (clearToLevel reading level s)"
  by (simp add: lockstep_def numLevels_def clearToLevel_def)

lemma lockstep_add_level: "lockstep s \<Longrightarrow> lockstep (add_level ops s)"
  by (simp add: lockstep_def numLevels_def add_level_def split: option.splits prod.splits)

lemma lockstep_build_levels: "lockstep s \<Longrightarrow> lockstep (build_levels ops n s)"
  by (induction n arbitrary: s) (simp_all add: lockstep_add_level)

lemma lockstep_prepareForLevel: "lockstep s \<Longrightarrow> lockstep (prepareForLevel ops level s)"
  by (simp add: prepareForLevel_def lockstep_build_levels)

lemma level_data_lockstep:
  "lockstep s \<Longrightarrow> level_data s l =
     (if 0 \<le> l \<and> l < numLevels s
      then Some (h s ! nat l, gbox s ! nat l, undrrelxr s ! nat l, maskvals s ! nat l,
                 geomarray s ! nat l)
      else None)"
  by (auto simp add: level_data_def lockstep_def numLevels_def)

lemma level_data_None_iff:
  "level_data s l = None \<longleftrightarrow>
     \<not> (0 \<le> l \<and> l < numLevels s \<and> nat l < length (gbox s) \<and> nat l < length (undrrelxr s) \<and>
        nat l < length (maskvals s) \<and> nat l < length (geomarray s))"
  by (simp add: level_data_def)

subsection \<open>Building levels\<close>

text \<open>
  A level can be added exactly when the level below it is there. Adding a level keeps
  that so, which is why \<open>build_levels n\<close> adds \<open>n\<close> levels or none.
\<close>

lemma add_level_stuck:
  "level_data s (numLevels s - 1) = None \<Longrightarrow> add_level ops s = s"
  by (simp add: add_level_def)

lemma build_levels_stuck:
  "level_data s (numLevels s - 1) = None \<Longrightarrow> build_levels ops n s = s"
  by (induction n) (simp_all add: add_level_stuck)

lemma numLevels_add_level:
  assumes "level_data s (numLevels s - 1) \<noteq> None"
  shows "numLevels (add_level ops s) = numLevels s + 1"
proof -
  from assms obtain hf bf rf mf gf
    where "level_data s (numLevels s - 1) = Some (hf, bf, rf, mf, gf)"
    by (cases "level_data s (numLevels s - 1)") auto
  then show ?thesis
    by (simp add: add_level_def coarsened_from_def numLevels_def)
qed

lemma add_level_can_add:
  assumes "level_data s (numLevels s - 1) \<noteq> None"
  shows "level_data (add_level ops s) (numLevels (add_level ops s) - 1) \<noteq> None"
proof -
  from assms obtain hf bf rf mf gf
    where some: "level_data s (numLevels s - 1) = Some (hf, bf, rf, mf, gf)"
    by (cases "level_data s (numLevels s - 1)") auto
  from assms have rng: "0 \<le> numLevels s - 1" "nat (numLevels s - 1) < length (gbox s)"
    "nat (numLevels s - 1) < length (undrrelxr s)" "nat (numLevels s - 1) < length (maskvals s)"
    "nat (numLevels s - 1) < length (geomarray s)"
    by (simp_all add: level_data_None_iff)
  have n: "numLevels (add_level ops s) = numLevels s + 1"
    using assms by (rule numLevels_add_level)
  have len: "length (gbox (add_level ops s)) = Suc (length (gbox s))"
    "length (undrrelxr (add_level ops s)) = Suc (length (undrrelxr s))"
    "length (maskvals (add_level ops s)) = Suc (length (maskvals s))"
    "length (geomarray (add_level ops s)) = Suc (length (geomarray s))"
    using some by (simp_all add: add_level_def coarsened_from_def)
  show ?thesis
    unfolding level_data_None_iff n len using rng by (simp; arith)
qed

lemma build_levels_grows:
  "level_data s (numLevels s - 1) \<noteq> None \<Longrightarrow>
     numLevels (build_levels ops n s) = numLevels s + int n"
proof (induction n arbitrary: s)
  case 0
  then show ?case by simp
next
  case (Suc n)
  from numLevels_add_level [OF Suc.prems, of ops] add_level_can_add [OF Suc.prems, of ops]
    Suc.IH [of "add_level ops s"]
  show ?case by simp
qed

lemma prepareForLevel_twice:
  "prepareForLevel ops level (prepareForLevel ops level s) = prepareForLevel ops level s"
proof (cases "level_data s (numLevels s - 1) = None")
  case True
  then show ?thesis by (simp add: prepareForLevel_def build_levels_stuck)
next
  case False
  then have "numLevels (prepareForLevel ops level s) =
      numLevels s + int (nat (level + 1 - numLevels s))"
    by (simp add: prepareForLevel_def build_levels_grows)
  then have "nat (level + 1 - numLevels (prepareForLevel ops level s)) = 0"
    by simp
  then show ?thesis
    by (simp add: prepareForLevel_def [of ops level "prepareForLevel ops level s"])
qed

lemma numLevels_add_level_ge: "numLevels s \<le> numLevels (add_level ops s)"
proof (cases "level_data s (numLevels s - 1) = None")
  case True
  then show ?thesis by (simp add: add_level_stuck)
next
  case False
  then show ?thesis by (simp add: numLevels_add_level)
qed

lemma level_data_add_level:
  assumes "lockstep s" and "l < numLevels s"
  shows "level_data (add_level ops s) l = level_data s l"
proof (cases "level_data s (numLevels s - 1)")
  case None
  then show ?thesis by (simp add: add_level_stuck)
next
  case (Some t)
  then obtain hf bf rf mf gf where t: "level_data s (numLevels s - 1) = Some (hf, bf, rf, mf, gf)"
    by (cases t) auto
  have ls: "lockstep (add_level ops s)"
    using assms(1) by (rule lockstep_add_level)
  have n: "numLevels (add_level ops s) = numLevels s + 1"
    using t by (simp add: numLevels_add_level)
  show ?thesis
    unfolding level_data_lockstep [OF ls] level_data_lockstep [OF assms(1)] n
    using assms t
    by (auto simp add: add_level_def coarsened_from_def nth_append lockstep_def numLevels_def)
qed

lemma level_data_build_levels:
  "lockstep s \<Longrightarrow> l < numLevels s \<Longrightarrow> level_data (build_levels ops n s) l = level_data s l"
proof (induction n arbitrary: s)
  case 0
  then show ?case by simp
next
  case (Suc n)
  have "l < numLevels (add_level ops s)"
    using Suc.prems(2) numLevels_add_level_ge [of s ops] by linarith
  with Suc.prems(1)
  have "level_data (build_levels ops n (add_level ops s)) l = level_data (add_level ops s) l"
    by (intro Suc.IH lockstep_add_level)
  with Suc.prems show ?case
    by (simp add: level_data_add_level)
qed

lemma can_add_lockstep:
  "lockstep s \<Longrightarrow> 0 < numLevels s \<Longrightarrow> level_data s (numLevels s - 1) \<noteq> None"
  by (simp add: level_data_lockstep)

lemma numLevels_prepareForLevel:
  assumes "lockstep s" and "0 < numLevels s"
  shows "numLevels (prepareForLevel ops level s) = max (numLevels s) (level + 1)"
  using build_levels_grows [OF can_add_lockstep [OF assms], of ops "nat (level + 1 - numLevels s)"]
  by (simp add: prepareForLevel_def max_def)

lemma level_data_add_level_new:
  assumes "lockstep s" and "0 < numLevels s"
  shows "level_data (add_level ops s) (numLevels s) =
           map_option (coarsened_from ops) (level_data s (numLevels s - 1))"
proof -
  from can_add_lockstep [OF assms] obtain hf bf rf mf gf
    where t: "level_data s (numLevels s - 1) = Some (hf, bf, rf, mf, gf)"
    by (cases "level_data s (numLevels s - 1)") auto
  have ls: "lockstep (add_level ops s)"
    using assms(1) by (rule lockstep_add_level)
  have n: "numLevels (add_level ops s) = numLevels s + 1"
    using t by (simp add: numLevels_add_level)
  have len: "nat (numLevels s) = length (h s)" "length (gbox s) = length (h s)"
    "length (undrrelxr s) = length (h s)" "length (maskvals s) = length (h s)"
    "length (geomarray s) = length (h s)"
    using assms(1) by (simp_all add: lockstep_def numLevels_def)
  have "level_data (add_level ops s) (numLevels s) =
      Some (h (add_level ops s) ! nat (numLevels s), gbox (add_level ops s) ! nat (numLevels s),
        undrrelxr (add_level ops s) ! nat (numLevels s), maskvals (add_level ops s) ! nat (numLevels s),
        geomarray (add_level ops s) ! nat (numLevels s))"
    unfolding level_data_lockstep [OF ls] n using assms(2) by simp
  also have "\<dots> = Some (coarsened_from ops (hf, bf, rf, mf, gf))"
    using t by (simp add: add_level_def coarsened_from_def len nth_append)
  finally show ?thesis by (simp add: t)
qed

lemma level_data_build_levels_new:
  "lockstep s \<Longrightarrow> 0 < numLevels s \<Longrightarrow> numLevels s \<le> l \<Longrightarrow> l < numLevels s + int n \<Longrightarrow>
     level_data (build_levels ops n s) l =
       map_option (coarsened_from ops) (level_data (build_levels ops n s) (l - 1))"
proof (induction n arbitrary: s)
  case 0
  then show ?case by simp
next
  case (Suc n)
  let ?s' = "add_level ops s"
  have ls: "lockstep ?s'"
    using Suc.prems(1) by (rule lockstep_add_level)
  have n: "numLevels ?s' = numLevels s + 1"
    using can_add_lockstep [OF Suc.prems(1,2)] by (rule numLevels_add_level)
  show ?case
  proof (cases "l = numLevels s")
    case True
    have "level_data (build_levels ops n ?s') l = level_data ?s' l"
      using ls n True by (simp add: level_data_build_levels)
    moreover have "level_data (build_levels ops n ?s') (l - 1) = level_data ?s' (l - 1)"
      using ls n True by (simp add: level_data_build_levels)
    moreover have "level_data ?s' (l - 1) = level_data s (l - 1)"
      using Suc.prems(1) True by (simp add: level_data_add_level)
    ultimately show ?thesis
      using level_data_add_level_new [OF Suc.prems(1,2), of ops] True by simp
  next
    case False
    with Suc.prems n have "numLevels ?s' \<le> l" "l < numLevels ?s' + int n" "0 < numLevels ?s'"
      by simp_all
    with ls show ?thesis
      by (simp add: Suc.IH)
  qed
qed

subsection \<open>The example operator, evaluated\<close>

lemma ex_constructed:
  "ex_LinOp =
     \<lparr> h = [1], gbox = [[([0], [7])]], undrrelxr = [[([0], [7])]], maskvals = [[1, 1]],
       lmaskvals = [], bgb = ([([0], [7])], ([0], [7])), geomarray = [([0], [7])],
       harmavg = 0, verbose = 0, maxorder = 2 \<rparr>"
  by (simp add: ex_LinOp_def ex_ops_def LinOp_construct_def)

lemma ex_prepared_2:
  "prepareForLevel ex_ops 2 ex_LinOp =
     \<lparr> h = [1, 2, 4], gbox = [[([0], [7])], [([0], [3])], [([0], [1])]],
       undrrelxr = [[([0], [7])], [([0], [3])], [([0], [1])]],
       maskvals = [[1, 1], [1, 1], [1, 1]], lmaskvals = [],
       bgb = ([([0], [7])], ([0], [7])),
       geomarray = [([0], [7]), ([0], [3]), ([0], [1])],
       harmavg = 0, verbose = 0, maxorder = 2 \<rparr>"
  by (simp add: ex_LinOp_def ex_ops_def coarsen_Box_def LinOp_construct_def prepareForLevel_def
      add_level_def coarsened_from_def level_data_def numLevels_def numeral_2_eq_2)

subsection \<open>The claims on the operator\<close>

text \<open>
  Claim C5. \<open>prepareForLevel\<close> is idempotent: for every operator state and every level
  \<open>k\<close>, a second call in succession gives the very state the first call gave. On an
  operator that has its level 0 and whose containers are in lock-step, one call builds
  every missing level up to \<open>k\<close> (afterwards there are \<open>max (numLevels()) (k + 1)\<close>
  levels, each of \<open>0 .. k\<close> with its per-level state), keeps the containers in
  lock-step (no entry duplicated, none left over), leaves the levels that were there
  as they were, and gives every level it builds the state coarsened from the level
  below it.
\<close>

theorem prepareForLevel_idempotent:
  "prepareForLevel ops k (prepareForLevel ops k s) = prepareForLevel ops k s \<and>
   (lockstep s \<and> 0 < numLevels s \<longrightarrow>
      numLevels (prepareForLevel ops k s) = max (numLevels s) (k + 1) \<and>
      lockstep (prepareForLevel ops k s) \<and>
      (\<forall>l. l < numLevels s \<longrightarrow> level_data (prepareForLevel ops k s) l = level_data s l) \<and>
      (\<forall>l. 0 \<le> l \<and> l \<le> k \<longrightarrow> level_data (prepareForLevel ops k s) l \<noteq> None) \<and>
      (\<forall>l. numLevels s \<le> l \<and> l \<le> k \<longrightarrow>
         level_data (prepareForLevel ops k s) l =
           map_option (coarsened_from ops) (level_data (prepareForLevel ops k s) (l - 1))))"
proof (intro conjI impI)
  show "prepareForLevel ops k (prepareForLevel ops k s) = prepareForLevel ops k s"
    by (rule prepareForLevel_twice)
next
  assume a: "lockstep s \<and> 0 < numLevels s"
  then show n: "numLevels (prepareForLevel ops k s) = max (numLevels s) (k + 1)"
    by (simp add: numLevels_prepareForLevel)
  from a show ls: "lockstep (prepareForLevel ops k s)"
    by (simp add: lockstep_prepareForLevel)
  from a show "\<forall>l. l < numLevels s \<longrightarrow> level_data (prepareForLevel ops k s) l = level_data s l"
    by (simp add: prepareForLevel_def level_data_build_levels)
  show "\<forall>l. 0 \<le> l \<and> l \<le> k \<longrightarrow> level_data (prepareForLevel ops k s) l \<noteq> None"
    unfolding level_data_lockstep [OF ls] n by auto
  show "\<forall>l. numLevels s \<le> l \<and> l \<le> k \<longrightarrow>
         level_data (prepareForLevel ops k s) l =
           map_option (coarsened_from ops) (level_data (prepareForLevel ops k s) (l - 1))"
  proof (intro allI impI)
    fix l
    assume l: "numLevels s \<le> l \<and> l \<le> k"
    then have "l < numLevels s + int (nat (k + 1 - numLevels s))"
      by simp
    with a l show "level_data (prepareForLevel ops k s) l =
        map_option (coarsened_from ops) (level_data (prepareForLevel ops k s) (l - 1))"
      unfolding prepareForLevel_def by (intro level_data_build_levels_new) simp_all
  qed
qed

text \<open>
  On the example operator, which has level 0 only: preparing level 2 builds levels 1
  and 2, the grids halving each time, and preparing level 2 again changes nothing.
\<close>

theorem prepareForLevel_idempotent_witness:
  "prepareForLevel ex_ops 2 (prepareForLevel ex_ops 2 ex_LinOp) = prepareForLevel ex_ops 2 ex_LinOp \<and>
   numLevels ex_LinOp = 1 \<and>
   numLevels (prepareForLevel ex_ops 2 ex_LinOp) = 3 \<and>
   gbox (prepareForLevel ex_ops 2 ex_LinOp) = [[([0], [7])], [([0], [3])], [([0], [1])]] \<and>
   level_data (prepareForLevel ex_ops 2 ex_LinOp) 0 = level_data ex_LinOp 0 \<and>
   level_data (prepareForLevel ex_ops 2 ex_LinOp) 2 =
     map_option (coarsened_from ex_ops) (level_data (prepareForLevel ex_ops 2 ex_LinOp) 1)"
proof -
  have a: "lockstep ex_LinOp \<and> 0 < numLevels ex_LinOp"
    by (simp add: ex_constructed lockstep_def numLevels_def)
  have "numLevels ex_LinOp = 1"
    by (simp add: ex_constructed numLevels_def)
  moreover
  have "gbox (prepareForLevel ex_ops 2 ex_LinOp) = [[([0], [7])], [([0], [3])], [([0], [1])]]"
    by (simp add: ex_prepared_2)
  ultimately show ?thesis
    using prepareForLevel_idempotent [of ex_ops 2 ex_LinOp] a by simp
qed

text \<open>
  Claim C6. At every point of an operator's lifetime (once constructed, and after any
  sequence of \<open>prepareForLevel\<close> and \<open>clearToLevel\<close> calls at any levels), \<open>numLevels()\<close>
  is \<open>h.size()\<close>, and \<open>gbox\<close>, \<open>undrrelxr\<close>, \<open>maskvals\<close> and \<open>geomarray\<close> have
  exactly \<open>numLevels()\<close> entries each. This holds whichever of the two readings of
  \<open>clearToLevel\<close> each clearing call follows.
\<close>

theorem per_level_containers_lockstep:
  assumes "reachable ops s"
  shows "numLevels s = int (length (h s)) \<and>
         int (length (gbox s)) = numLevels s \<and>
         int (length (undrrelxr s)) = numLevels s \<and>
         int (length (maskvals s)) = numLevels s \<and>
         int (length (geomarray s)) = numLevels s"
proof -
  from assms have "lockstep s"
  proof (induction rule: reachable.induct)
    case (constructed mgb h0)
    show ?case by (rule lockstep_construct)
  next
    case (prepared s level)
    then show ?case by (simp add: lockstep_prepareForLevel)
  next
    case (cleared s level)
    then show ?case by (simp add: lockstep_clearToLevel)
  qed
  then show ?thesis
    by (simp add: lockstep_def)
qed

text \<open>
  The example operator, constructed, prepared to level 2 (three levels), cleared to
  level 1 under the first reading (two levels left) and then to level 1 under the
  second reading (one level left): one entry in every container.
\<close>

theorem per_level_containers_lockstep_witness:
  "numLevels (prepareForLevel ex_ops 2 ex_LinOp) = 3 \<and>
   numLevels (clearToLevel Strictly_above 1 (prepareForLevel ex_ops 2 ex_LinOp)) = 2 \<and>
   numLevels (clearToLevel Level_and_above 1
     (clearToLevel Strictly_above 1 (prepareForLevel ex_ops 2 ex_LinOp))) = 1 \<and>
   length (h (clearToLevel Level_and_above 1
     (clearToLevel Strictly_above 1 (prepareForLevel ex_ops 2 ex_LinOp)))) = 1 \<and>
   length (gbox (clearToLevel Level_and_above 1
     (clearToLevel Strictly_above 1 (prepareForLevel ex_ops 2 ex_LinOp)))) = 1 \<and>
   length (undrrelxr (clearToLevel Level_and_above 1
     (clearToLevel Strictly_above 1 (prepareForLevel ex_ops 2 ex_LinOp)))) = 1 \<and>
   length (maskvals (clearToLevel Level_and_above 1
     (clearToLevel Strictly_above 1 (prepareForLevel ex_ops 2 ex_LinOp)))) = 1 \<and>
   length (geomarray (clearToLevel Level_and_above 1
     (clearToLevel Strictly_above 1 (prepareForLevel ex_ops 2 ex_LinOp)))) = 1"
proof -
  have "reachable ex_ops ex_LinOp"
    unfolding ex_LinOp_def by (rule reachable.constructed)
  then have r: "reachable ex_ops (clearToLevel Level_and_above 1
      (clearToLevel Strictly_above 1 (prepareForLevel ex_ops 2 ex_LinOp)))"
    by (intro reachable.cleared reachable.prepared)
  have n: "numLevels (prepareForLevel ex_ops 2 ex_LinOp) = 3"
    "numLevels (clearToLevel Strictly_above 1 (prepareForLevel ex_ops 2 ex_LinOp)) = 2"
    "numLevels (clearToLevel Level_and_above 1
       (clearToLevel Strictly_above 1 (prepareForLevel ex_ops 2 ex_LinOp))) = 1"
    by (simp_all add: ex_prepared_2 clearToLevel_def numLevels_def)
  show ?thesis
    using per_level_containers_lockstep [OF r] n by simp
qed

text \<open>
  Claim C7, as the code has it. On an operator whose containers are in lock-step,
  \<open>boxArray(level)\<close> stops on its assertion if and only if \<open>level \<ge> numLevels()\<close>; for
  \<open>0 \<le> level < numLevels()\<close> it returns \<open>gbox[level]\<close>; and in every case the operator
  is what it was, so the level asked for is never prepared by the call.
\<close>

theorem boxArray_contract:
  assumes "lockstep s"
  shows "(fst (boxArray s level) = Inl AssertionFailed \<longleftrightarrow> numLevels s \<le> level) \<and>
         (0 \<le> level \<and> level < numLevels s \<longrightarrow> fst (boxArray s level) = Inr (gbox s ! nat level)) \<and>
         snd (boxArray s level) = s \<and>
         numLevels (snd (boxArray s level)) = numLevels s"
  using assms
  by (auto simp add: boxArray_def Vector_at_def lockstep_def)

text \<open>
  On the example operator, which has level 0 only: level 0 is returned, level 1 stops
  on the assertion, and the operator is unchanged.
\<close>

theorem boxArray_contract_witness:
  "fst (boxArray ex_LinOp 0) = Inr [([0], [7])] \<and>
   fst (boxArray ex_LinOp 1) = Inl AssertionFailed \<and>
   numLevels ex_LinOp = 1 \<and>
   snd (boxArray ex_LinOp 0) = ex_LinOp"
proof -
  have ls: "lockstep ex_LinOp"
    by (simp add: ex_constructed lockstep_def numLevels_def)
  have n: "numLevels ex_LinOp = 1" "gbox ex_LinOp = [[([0], [7])]]"
    by (simp_all add: ex_constructed numLevels_def)
  show ?thesis
    using boxArray_contract [OF ls, of 0] boxArray_contract [OF ls, of 1] n by simp
qed

text \<open>
  The claim as stated, "when \<open>level < numLevels()\<close> it returns \<open>gbox[level]\<close>", fails
  below level 0: \<open>level\<close> is an \<^verbatim>\<open>int\<close>, the assertion \<open>level < numLevels()\<close> holds
  for \<open>level = -1\<close>, and \<open>gbox\<close> is then indexed at \<open>-1\<close>, where it has no entry.
\<close>

theorem boxArray_negative_level:
  "- 1 < numLevels ex_LinOp \<and> fst (boxArray ex_LinOp (- 1)) = Inl IndexOutOfRange"
  by (simp add: boxArray_def Vector_at_def numLevels_def ex_constructed)

end
